theory Spec2Isabelle
  imports Complex_Main "HOL-Library.Sublist"
begin

section \<open>The matching code of \<open>backend_findit/app.js\<close>\<close>

text \<open>
  The development embeds \<open>computeTextSimilarity\<close> (with its inner \<open>cosineSimilarity\<close>)
  and the handler of \<open>POST /matchingfounditems\<close>.

  JavaScript numbers are modelled as exact reals extended by \<open>NaN\<close> and the two
  infinities: division by zero and arithmetic on \<open>undefined\<close> behave as in JavaScript,
  while the rounding and the overflow of IEEE doubles are not modelled. The embedding
  model (\<open>similarityModel\<close>) is a parameter of the functions that call it; the value
  that \<open>app.js\<close> binds it to is \<open>similarityModel_promise\<close> below.
\<close>

subsection \<open>Numbers\<close>

datatype jsnum = Num real | NaN | PInf | NInf

fun js_add :: "jsnum \<Rightarrow> jsnum \<Rightarrow> jsnum" where
  "js_add (Num x) (Num y) = Num (x + y)"
| "js_add NaN _ = NaN"
| "js_add _ NaN = NaN"
| "js_add PInf NInf = NaN"
| "js_add NInf PInf = NaN"
| "js_add PInf _ = PInf"
| "js_add _ PInf = PInf"
| "js_add NInf _ = NInf"
| "js_add _ NInf = NInf"

fun js_mul :: "jsnum \<Rightarrow> jsnum \<Rightarrow> jsnum" where
  "js_mul (Num x) (Num y) = Num (x * y)"
| "js_mul NaN _ = NaN"
| "js_mul _ NaN = NaN"
| "js_mul PInf (Num y) = (if y = 0 then NaN else if 0 < y then PInf else NInf)"
| "js_mul NInf (Num y) = (if y = 0 then NaN else if 0 < y then NInf else PInf)"
| "js_mul (Num x) PInf = (if x = 0 then NaN else if 0 < x then PInf else NInf)"
| "js_mul (Num x) NInf = (if x = 0 then NaN else if 0 < x then NInf else PInf)"
| "js_mul PInf PInf = PInf"
| "js_mul NInf NInf = PInf"
| "js_mul PInf NInf = NInf"
| "js_mul NInf PInf = NInf"

text \<open>
  Division. A zero divisor is taken as \<open>+0\<close>: the only divisor of the program is a
  product of two square roots.
\<close>

fun js_div :: "jsnum \<Rightarrow> jsnum \<Rightarrow> jsnum" where
  "js_div (Num x) (Num y) =
     (if y \<noteq> 0 then Num (x / y)
      else if x = 0 then NaN
      else if 0 < x then PInf else NInf)"
| "js_div NaN _ = NaN"
| "js_div _ NaN = NaN"
| "js_div (Num x) PInf = Num 0"
| "js_div (Num x) NInf = Num 0"
| "js_div PInf (Num y) = (if y < 0 then NInf else PInf)"
| "js_div NInf (Num y) = (if y < 0 then PInf else NInf)"
| "js_div PInf PInf = NaN"
| "js_div PInf NInf = NaN"
| "js_div NInf PInf = NaN"
| "js_div NInf NInf = NaN"

text \<open>The comparison \<open>x >= y\<close>: false as soon as one side is \<open>NaN\<close>.\<close>

fun js_ge :: "jsnum \<Rightarrow> jsnum \<Rightarrow> bool" where
  "js_ge (Num x) (Num y) = (y \<le> x)"
| "js_ge NaN _ = False"
| "js_ge _ NaN = False"
| "js_ge PInf _ = True"
| "js_ge _ NInf = True"
| "js_ge (Num x) PInf = False"
| "js_ge NInf (Num y) = False"
| "js_ge NInf PInf = False"

subsection \<open>\<open>cosineSimilarity\<close>\<close>

datatype exn = TypeError | ProviderFailure

text \<open>\<open>b[index]\<close> as an operand of \<open>*\<close>: out of range it is \<open>undefined\<close>, which
  arithmetic reads as \<open>NaN\<close>.\<close>

definition at_index :: "real list \<Rightarrow> nat \<Rightarrow> jsnum" where
  "at_index b index = (if index < length b then Num (b ! index) else NaN)"

text \<open>\<open>a.reduce((sum, value, index) => sum + value * b[index], 0)\<close>, from position
  \<open>index\<close> on, \<open>acc\<close> being the running \<open>sum\<close>.\<close>

fun reduce_dot :: "real list \<Rightarrow> real list \<Rightarrow> nat \<Rightarrow> jsnum \<Rightarrow> jsnum" where
  "reduce_dot [] b index acc = acc"
| "reduce_dot (value # rest) b index acc =
     reduce_dot rest b (Suc index) (js_add acc (js_mul (Num value) (at_index b index)))"

definition dotProduct :: "real list \<Rightarrow> real list \<Rightarrow> jsnum" where
  "dotProduct a b = reduce_dot a b 0 (Num 0)"

text \<open>\<open>Math.sqrt(a.reduce((sum, value) => sum + value * value, 0))\<close>\<close>

definition norm_of :: "real list \<Rightarrow> real" where
  "norm_of a = sqrt (foldl (\<lambda>acc value. acc + value * value) 0 a)"

text \<open>
  The arguments are \<open>embeddings1[0]\<close> and \<open>embeddings2[0]\<close>, which may be
  \<open>undefined\<close> (\<open>None\<close>): then \<open>a.reduce\<close>, \<open>b[index]\<close> or \<open>b.reduce\<close> throws a
  TypeError.
\<close>

definition cosineSimilarity :: "real list option \<Rightarrow> real list option \<Rightarrow> exn + jsnum" where
  "cosineSimilarity a b =
     (case a of
        None \<Rightarrow> Inl TypeError
      | Some xs \<Rightarrow>
          (case b of
             None \<Rightarrow> Inl TypeError
           | Some ys \<Rightarrow> Inr (js_div (dotProduct xs ys) (Num (norm_of xs * norm_of ys)))))"

subsection \<open>\<open>computeTextSimilarity\<close>\<close>

text \<open>
  The embedding model answers a text with a batch of vectors or throws (\<open>None\<close>). Its
  answer may depend on the calls made before, which the first argument lists.
\<close>

type_synonym provider = "string list \<Rightarrow> string \<Rightarrow> real list list option"

text \<open>\<open>embeddings[0]\<close>\<close>

definition first_row :: "real list list \<Rightarrow> real list option" where
  "first_row e = (case e of [] \<Rightarrow> None | v # _ \<Rightarrow> Some v)"

text \<open>The body of the \<open>try\<close> block, with the list of the provider calls made.\<close>

definition similarity_try ::
  "provider \<Rightarrow> string \<Rightarrow> string \<Rightarrow> string list \<Rightarrow> (exn + jsnum) \<times> string list" where
  "similarity_try similarityModel text1 text2 calls =
     (case similarityModel calls text1 of
        None \<Rightarrow> (Inl ProviderFailure, calls @ [text1])
      | Some embeddings1 \<Rightarrow>
          (case similarityModel (calls @ [text1]) text2 of
             None \<Rightarrow> (Inl ProviderFailure, calls @ [text1, text2])
           | Some embeddings2 \<Rightarrow>
               (cosineSimilarity (first_row embeddings1) (first_row embeddings2),
                calls @ [text1, text2])))"

definition computeTextSimilarity ::
  "provider \<Rightarrow> string \<Rightarrow> string \<Rightarrow> string list \<Rightarrow> jsnum \<times> string list" where
  "computeTextSimilarity similarityModel text1 text2 calls =
     (case similarity_try similarityModel text1 text2 calls of
        (Inl error, calls') \<Rightarrow> (Num 0, calls')
      | (Inr similarity, calls') \<Rightarrow> (similarity, calls'))"

subsection \<open>\<open>POST /matchingfounditems\<close>\<close>

text \<open>A found-item document: the fields that \<open>POST /reportfound\<close> stores, and the
  \<open>_id\<close> that the database gives it (\<open>oid\<close>).\<close>

record FoundItem =
  oid :: nat
  contact :: string
  location :: string
  time :: string
  date :: string
  description :: string
  photo :: "string option"

datatype body =
    Message string
  | ErrorMessage string string
  | Items "FoundItem list"

record response =
  status :: nat
  body :: body

text \<open>
  What the handler reads and writes outside itself: the found-item collection, whether
  \<open>FoundItem.find()\<close> rejects (and with which message), and the calls of
  \<open>similarityModel\<close> made so far: the texts passed, whether the call returned or
  threw.
\<close>

record world =
  foundItems :: "FoundItem list"
  find_error :: "string option"
  provider_calls :: "string list"

definition FoundItem_find :: "world \<Rightarrow> string + FoundItem list" where
  "FoundItem_find w = (case find_error w of Some msg \<Rightarrow> Inl msg | None \<Rightarrow> Inr (foundItems w))"

text \<open>The loop over \<open>foundItems\<close>, with its test \<open>similarity >= 0.5\<close>.\<close>

fun match_loop ::
  "provider \<Rightarrow> string \<Rightarrow> FoundItem list \<Rightarrow> FoundItem list \<Rightarrow> string list
     \<Rightarrow> FoundItem list \<times> string list" where
  "match_loop similarityModel lostItemDescription [] matchedItems calls =
     (matchedItems, calls)"
| "match_loop similarityModel lostItemDescription (item # rest) matchedItems calls =
     (case computeTextSimilarity similarityModel lostItemDescription (description item) calls of
        (similarity, calls') \<Rightarrow>
          match_loop similarityModel lostItemDescription rest
            (if js_ge similarity (Num (1 / 2)) then matchedItems @ [item] else matchedItems)
            calls')"

text \<open>
  The handler. \<open>req.query\<close> is a map from parameter names to strings, of which only
  \<open>lostItemDescription\<close> is read; \<open>!lostItemDescription\<close> holds of a missing parameter
  and of the empty string.
\<close>

definition matchingfounditems ::
  "provider \<Rightarrow> (string \<rightharpoonup> string) \<Rightarrow> world \<Rightarrow> response \<times> world" where
  "matchingfounditems similarityModel query w =
     (case query ''lostItemDescription'' of
        None \<Rightarrow>
          (\<lparr>status = 400, body = Message ''Lost item description is required''\<rparr>, w)
      | Some lostItemDescription \<Rightarrow>
          if lostItemDescription = [] then
            (\<lparr>status = 400, body = Message ''Lost item description is required''\<rparr>, w)
          else
            (case FoundItem_find w of
               Inl msg \<Rightarrow>
                 (\<lparr>status = 500, body = ErrorMessage ''Error processing matching items'' msg\<rparr>, w)
             | Inr items \<Rightarrow>
                 (case match_loop similarityModel lostItemDescription items [] (provider_calls w) of
                    (matchedItems, calls') \<Rightarrow>
                      (\<lparr>status = 200, body = Items matchedItems\<rparr>, w\<lparr>provider_calls := calls'\<rparr>))))"

text \<open>
  The binding of line 15, \<open>const similarityModel = pipeline(...)\<close>, has no
  \<open>await\<close>: \<open>pipeline\<close> is an async function, so the constant holds a promise, and
  every call \<open>similarityModel(text)\<close> throws a TypeError inside the \<open>try\<close> block
  before any embedding is computed.
\<close>

definition similarityModel_promise :: provider where
  "similarityModel_promise calls text = None"

subsection \<open>Auxiliary notions for the statements\<close>

text \<open>
  The similarity that \<open>computeTextSimilarity\<close> gives a candidate, for a provider whose
  answer depends on the text alone.
\<close>

definition similarity_of ::
  "(string \<Rightarrow> real list list option) \<Rightarrow> string \<Rightarrow> FoundItem \<Rightarrow> jsnum" where
  "similarity_of f q item = fst (computeTextSimilarity (\<lambda>_. f) q (description item) [])"


text \<open>
  The normalization that the specification asks of a query text (trimming); the
  source has no counterpart. It only serves to state what the handler does not do.
\<close>

definition spec_normalize :: "string \<Rightarrow> string" where
  "spec_normalize s =
     dropWhile (\<lambda>c. c = CHR '' '') (rev (dropWhile (\<lambda>c. c = CHR '' '') (rev s)))"

text \<open>Example inputs: a provider, a record and a collection of three records.\<close>

definition embed_demo :: "string \<Rightarrow> real list list option" where
  "embed_demo text =
     (if text = ''wallet'' then Some [[1, 0]]
      else if text = ''bag'' then Some [[3, 4]]
      else if text = ''keys'' then Some [[0, 1]]
      else None)"

definition item_demo :: "nat \<Rightarrow> string \<Rightarrow> FoundItem" where
  "item_demo n d =
     \<lparr>oid = n, contact = ''c'', location = ''l'', time = ''t'', date = ''d'',
      description = d, photo = None\<rparr>"

definition world_demo :: world where
  "world_demo =
     \<lparr>foundItems = [item_demo 11 ''bag'', item_demo 12 ''wallet'', item_demo 13 ''keys''],
      find_error = None, provider_calls = []\<rparr>"

section \<open>Properties of \<open>cosineSimilarity\<close>\<close>

lemma sumsq_foldl:
  "foldl (\<lambda>acc value. acc + value * value) s a = s + (\<Sum>v\<leftarrow>a. v * v)"
  by (induction a arbitrary: s) (simp_all add: add.assoc)

lemma sumsq_nonneg: "0 \<le> (\<Sum>v\<leftarrow>a. v * v :: real)"
  by (induction a) simp_all

lemma sumsq_zero_iff: "(\<Sum>v\<leftarrow>a. v * v :: real) = 0 \<longleftrightarrow> (\<forall>v \<in> set a. v = 0)"
proof (induction a)
  case Nil
  show ?case by simp
next
  case (Cons x xs)
  have "0 \<le> x * x" by simp
  moreover have "0 \<le> (\<Sum>v\<leftarrow>xs. v * v)" by (rule sumsq_nonneg)
  ultimately have "x * x + (\<Sum>v\<leftarrow>xs. v * v) = 0 \<longleftrightarrow> x * x = 0 \<and> (\<Sum>v\<leftarrow>xs. v * v) = 0"
    by (rule add_nonneg_eq_0_iff)
  with Cons show ?case by simp
qed

lemma norm_of_zero_iff: "norm_of a = 0 \<longleftrightarrow> (\<forall>v \<in> set a. v = 0)"
  by (simp add: norm_of_def sumsq_foldl sumsq_zero_iff)

lemma reduce_dot_zero_left:
  "\<forall>v \<in> set a. v = 0 \<Longrightarrow> acc = Num 0 \<or> acc = NaN \<Longrightarrow>
   reduce_dot a b i acc = Num 0 \<or> reduce_dot a b i acc = NaN"
proof (induction a arbitrary: i acc)
  case Nil
  then show ?case by simp
next
  case (Cons x xs)
  have "js_add acc (js_mul (Num x) (at_index b i)) = Num 0
        \<or> js_add acc (js_mul (Num x) (at_index b i)) = NaN"
    using Cons.prems by (auto simp: at_index_def)
  with Cons show ?case by simp
qed

lemma reduce_dot_zero_right:
  "\<forall>v \<in> set b. v = 0 \<Longrightarrow> acc = Num 0 \<or> acc = NaN \<Longrightarrow>
   reduce_dot a b i acc = Num 0 \<or> reduce_dot a b i acc = NaN"
proof (induction a arbitrary: i acc)
  case Nil
  then show ?case by simp
next
  case (Cons x xs)
  have "js_add acc (js_mul (Num x) (at_index b i)) = Num 0
        \<or> js_add acc (js_mul (Num x) (at_index b i)) = NaN"
    using Cons.prems by (auto simp: at_index_def)
  with Cons show ?case by simp
qed

lemma sqrt25: "sqrt 25 = 5"
  using real_sqrt_abs [of 5] by simp








text \<open>
  C5, as the code has it. When one of the two vectors has norm zero (all its entries
  are zero), \<open>cosineSimilarity\<close> does not throw: it divides zero by zero and returns
  \<open>NaN\<close>, not \<open>0\<close>.
\<close>

theorem cosineSimilarity_zero_norm:
  assumes "norm_of a = 0 \<or> norm_of b = 0"
  shows "cosineSimilarity (Some a) (Some b) = Inr NaN"
proof -
  have d: "dotProduct a b = Num 0 \<or> dotProduct a b = NaN"
    using assms reduce_dot_zero_left [of a "Num 0" b 0] reduce_dot_zero_right [of b "Num 0" a 0]
    by (auto simp: dotProduct_def norm_of_zero_iff)
  have z: "norm_of a * norm_of b = 0" using assms by auto
  show ?thesis using d z by (auto simp: cosineSimilarity_def)
qed

theorem cosineSimilarity_zero_norm_witness:
  "(norm_of [0, 0] = 0 \<or> norm_of [3, 4] = 0)
   \<and> cosineSimilarity (Some [0, 0]) (Some [3, 4]) = Inr NaN"
  using cosineSimilarity_zero_norm [of "[0, 0]" "[3, 4]"] by (simp add: norm_of_def)

text \<open>
  C5 as stated fails: the zero vector against \<open>[1, 0]\<close> gives \<open>NaN\<close> where the claim
  promises \<open>0\<close>.
\<close>

theorem cosineSimilarity_zero_norm_counterexample:
  "norm_of [0, 0] = 0
   \<and> cosineSimilarity (Some [0, 0]) (Some [1, 0]) = Inr NaN
   \<and> cosineSimilarity (Some [0, 0]) (Some [1, 0]) \<noteq> Inr (Num 0)"
  by (simp add: cosineSimilarity_def dotProduct_def norm_of_def at_index_def)




section \<open>Properties of \<open>computeTextSimilarity\<close> and of the candidate loop\<close>

lemma compute_calls_cases:
  "snd (computeTextSimilarity p t1 t2 cs) = cs @ [t1]
   \<or> snd (computeTextSimilarity p t1 t2 cs) = cs @ [t1, t2]"
  by (simp add: computeTextSimilarity_def similarity_try_def
      split: option.split sum.split prod.split)

lemma compute_calls_exact:
  "snd (computeTextSimilarity p t1 t2 cs) = cs @ (if p cs t1 = None then [t1] else [t1, t2])"
  by (simp add: computeTextSimilarity_def similarity_try_def
      split: option.split sum.split prod.split)

lemma compute_query_fails:
  "p cs t1 = None \<Longrightarrow> fst (computeTextSimilarity p t1 t2 cs) = Num 0"
  by (simp add: computeTextSimilarity_def similarity_try_def)

lemma compute_candidate_fails:
  "\<forall>c. p c t2 = None \<Longrightarrow> fst (computeTextSimilarity p t1 t2 cs) = Num 0"
  by (simp add: computeTextSimilarity_def similarity_try_def split: option.split)

lemma compute_stateless:
  "fst (computeTextSimilarity (\<lambda>_. f) t1 t2 cs) = fst (computeTextSimilarity (\<lambda>_. f) t1 t2 [])"
  by (simp add: computeTextSimilarity_def similarity_try_def
      split: option.split sum.split prod.split)

lemma match_loop_calls:
  "\<exists>new. snd (match_loop p q items acc cs) = cs @ new
         \<and> length items \<le> length new \<and> length new \<le> 2 * length items"
proof (induction items arbitrary: acc cs)
  case Nil
  show ?case by simp
next
  case (Cons item rest)
  obtain s cs' where c: "computeTextSimilarity p q (description item) cs = (s, cs')"
    by (cases "computeTextSimilarity p q (description item) cs")
  from compute_calls_cases [of p q "description item" cs] c
  obtain one where o: "cs' = cs @ one" "1 \<le> length one" "length one \<le> 2"
    by auto
  from Cons.IH [of "if js_ge s (Num (1 / 2)) then acc @ [item] else acc" cs']
  obtain new where n:
      "snd (match_loop p q rest (if js_ge s (Num (1 / 2)) then acc @ [item] else acc) cs') = cs' @ new"
      "length rest \<le> length new" "length new \<le> 2 * length rest"
    by blast
  have "snd (match_loop p q (item # rest) acc cs) = cs @ (one @ new)"
    using c o n by simp
  moreover have "length (item # rest) \<le> length (one @ new)" using o n by simp
  moreover have "length (one @ new) \<le> 2 * length (item # rest)" using o n by simp
  ultimately show ?case by blast
qed

lemma match_loop_calls_exact:
  "\<exists>segs. snd (match_loop p q items acc cs) = cs @ concat segs
          \<and> length segs = length items
          \<and> (\<forall>i < length items.
                segs ! i = (if p (cs @ concat (take i segs)) q = None then [q]
                            else [q, description (items ! i)]))"
proof (induction items arbitrary: acc cs)
  case Nil
  show ?case by simp
next
  case (Cons item rest)
  define s0 where "s0 = (if p cs q = None then [q] else [q, description item])"
  obtain s cs' where c: "computeTextSimilarity p q (description item) cs = (s, cs')"
    by (cases "computeTextSimilarity p q (description item) cs")
  have cs': "cs' = cs @ s0"
    using compute_calls_exact [of p q "description item" cs] c by (simp add: s0_def)
  from Cons.IH [of "if js_ge s (Num (1 / 2)) then acc @ [item] else acc" cs']
  obtain segs where n:
      "snd (match_loop p q rest (if js_ge s (Num (1 / 2)) then acc @ [item] else acc) cs')
       = cs' @ concat segs"
      "length segs = length rest"
      "\<forall>i < length rest.
         segs ! i = (if p (cs' @ concat (take i segs)) q = None then [q]
                     else [q, description (rest ! i)])"
    by blast
  have 1: "snd (match_loop p q (item # rest) acc cs) = cs @ concat (s0 # segs)"
    using c n(1) cs' by simp
  have 2: "length (s0 # segs) = length (item # rest)" using n(2) by simp
  have 3: "(s0 # segs) ! i = (if p (cs @ concat (take i (s0 # segs))) q = None then [q]
                            else [q, description ((item # rest) ! i)])"
    if "i < length (item # rest)" for i
  proof (cases i)
    case 0
    then show ?thesis by (simp add: s0_def)
  next
    case (Suc j)
    with that have "j < length rest" by simp
    with n(3) have "segs ! j = (if p (cs' @ concat (take j segs)) q = None then [q]
                     else [q, description (rest ! j)])" by blast
    then show ?thesis using Suc cs' by simp
  qed
  from 1 2 3 show ?case by blast
qed

lemma match_loop_calls_fail:
  "\<forall>c. p c q = None \<Longrightarrow>
   snd (match_loop p q items acc cs) = cs @ replicate (length items) q"
proof (induction items arbitrary: acc cs)
  case Nil
  show ?case by simp
next
  case (Cons item rest)
  obtain s cs' where c: "computeTextSimilarity p q (description item) cs = (s, cs')"
    by (cases "computeTextSimilarity p q (description item) cs")
  have "cs' = cs @ [q]"
    using compute_calls_exact [of p q "description item" cs] c Cons.prems by simp
  with c Cons show ?case by (simp add: replicate_app_Cons_same)
qed

lemma match_loop_subseq:
  "\<exists>ms. fst (match_loop p q items acc cs) = acc @ ms \<and> subseq ms items"
proof (induction items arbitrary: acc cs)
  case Nil
  show ?case by simp
next
  case (Cons item rest)
  obtain s cs' where c: "computeTextSimilarity p q (description item) cs = (s, cs')"
    by (cases "computeTextSimilarity p q (description item) cs")
  show ?case
  proof (cases "js_ge s (Num (1 / 2))")
    case True
    from Cons.IH [of "acc @ [item]" cs']
    obtain ms where
      "fst (match_loop p q rest (acc @ [item]) cs') = (acc @ [item]) @ ms" "subseq ms rest"
      by blast
    then have "fst (match_loop p q (item # rest) acc cs) = acc @ (item # ms)
               \<and> subseq (item # ms) (item # rest)"
      using c True by simp
    then show ?thesis by blast
  next
    case False
    from Cons.IH [of acc cs']
    obtain ms where "fst (match_loop p q rest acc cs') = acc @ ms" "subseq ms rest"
      by blast
    then have "fst (match_loop p q (item # rest) acc cs) = acc @ ms \<and> subseq ms (item # rest)"
      using c False by auto
    then show ?thesis by blast
  qed
qed

lemma match_loop_query_fails:
  "\<forall>c. p c q = None \<Longrightarrow> fst (match_loop p q items acc cs) = acc"
proof (induction items arbitrary: acc cs)
  case Nil
  show ?case by simp
next
  case (Cons item rest)
  obtain s cs' where c: "computeTextSimilarity p q (description item) cs = (s, cs')"
    by (cases "computeTextSimilarity p q (description item) cs")
  have "s = Num 0" using compute_query_fails [of p cs q "description item"] Cons.prems c by simp
  with Cons c show ?case by simp
qed

lemma match_loop_candidate_fails:
  "\<forall>c. p c d = None \<Longrightarrow> \<forall>it \<in> set acc. description it \<noteq> d \<Longrightarrow>
   \<forall>it \<in> set (fst (match_loop p q items acc cs)). description it \<noteq> d"
proof (induction items arbitrary: acc cs)
  case Nil
  then show ?case by simp
next
  case (Cons item rest)
  obtain s cs' where c: "computeTextSimilarity p q (description item) cs = (s, cs')"
    by (cases "computeTextSimilarity p q (description item) cs")
  have "description item = d \<Longrightarrow> s = Num 0"
    using compute_candidate_fails [of p d q cs] Cons.prems(1) c by simp
  then have "\<forall>it \<in> set (if js_ge s (Num (1 / 2)) then acc @ [item] else acc). description it \<noteq> d"
    using Cons.prems by auto
  from Cons.IH [OF Cons.prems(1) this, of cs'] c show ?case by simp
qed

lemma match_loop_stateless:
  "fst (match_loop (\<lambda>_. f) q items acc cs)
   = acc @ filter (\<lambda>item. js_ge (similarity_of f q item) (Num (1 / 2))) items"
proof (induction items arbitrary: acc cs)
  case Nil
  show ?case by simp
next
  case (Cons item rest)
  obtain s cs' where c: "computeTextSimilarity (\<lambda>_. f) q (description item) cs = (s, cs')"
    by (cases "computeTextSimilarity (\<lambda>_. f) q (description item) cs")
  have "s = similarity_of f q item"
    using compute_stateless [of f q "description item" cs] c by (simp add: similarity_of_def)
  with Cons c show ?case by simp
qed

lemma subseq_count_list: "subseq xs ys \<Longrightarrow> count_list xs x \<le> count_list ys x"
  by (induction rule: list_emb.induct) auto

lemma subseq_subset: "subseq xs ys \<Longrightarrow> set xs \<subseteq> set ys"
  using list_emb_set [of "(=)" xs ys] by auto

lemma subseq_distinct: "subseq xs ys \<Longrightarrow> distinct ys \<Longrightarrow> distinct xs"
  using subseqs_distinctD [of xs ys] by simp

section \<open>Runs on the example inputs\<close>

lemmas demo_defs = embed_demo_def item_demo_def world_demo_def matchingfounditems_def
  FoundItem_find_def computeTextSimilarity_def similarity_try_def cosineSimilarity_def
  first_row_def dotProduct_def norm_of_def at_index_def similarity_of_def sqrt25
  similarityModel_promise_def

lemma demo_run:
  "matchingfounditems (\<lambda>_. embed_demo) [''lostItemDescription'' \<mapsto> ''wallet''] world_demo
   = (\<lparr>status = 200, body = Items [item_demo 11 ''bag'', item_demo 12 ''wallet'']\<rparr>,
      world_demo\<lparr>provider_calls :=
        [''wallet'', ''bag'', ''wallet'', ''wallet'', ''wallet'', ''keys'']\<rparr>)"
  by (simp add: demo_defs)

lemma demo_sim_bag: "similarity_of embed_demo ''wallet'' (item_demo 11 ''bag'') = Num (3 / 5)"
  by (simp add: demo_defs)

lemma demo_sim_wallet: "similarity_of embed_demo ''wallet'' (item_demo 12 ''wallet'') = Num 1"
  by (simp add: demo_defs)

lemma demo_sim_keys: "similarity_of embed_demo ''wallet'' (item_demo 13 ''keys'') = Num 0"
  by (simp add: demo_defs)

lemma demo_blank:
  "matchingfounditems (\<lambda>_. embed_demo) [''lostItemDescription'' \<mapsto> '' ''] world_demo
   = (\<lparr>status = 200, body = Items []\<rparr>,
      world_demo\<lparr>provider_calls := ['' '', '' '', '' '']\<rparr>)"
  by (simp add: demo_defs)

lemma demo_down:
  "matchingfounditems (\<lambda>_ _. None) [''lostItemDescription'' \<mapsto> ''wallet''] world_demo
   = (\<lparr>status = 200, body = Items []\<rparr>,
      world_demo\<lparr>provider_calls := [''wallet'', ''wallet'', ''wallet'']\<rparr>)"
  by (simp add: demo_defs)

lemma demo_promise:
  "matchingfounditems similarityModel_promise [''lostItemDescription'' \<mapsto> ''wallet''] world_demo
   = (\<lparr>status = 200, body = Items []\<rparr>,
      world_demo\<lparr>provider_calls := [''wallet'', ''wallet'', ''wallet'']\<rparr>)"
  by (simp add: demo_defs similarityModel_promise_def)

lemma demo_try_ring:
  "fst (similarity_try (\<lambda>_. embed_demo) ''wallet'' ''ring'' []) = Inl ProviderFailure"
  by (simp add: similarity_try_def embed_demo_def)

lemma demo_run_ring:
  "fst (matchingfounditems (\<lambda>_. embed_demo) [''lostItemDescription'' \<mapsto> ''wallet'']
      (world_demo\<lparr>foundItems := [item_demo 14 ''ring'', item_demo 12 ''wallet'']\<rparr>))
   = \<lparr>status = 200, body = Items [item_demo 12 ''wallet'']\<rparr>"
  by (simp add: demo_defs)

section \<open>Properties of the handler\<close>

lemma handler_items:
  assumes "body (fst (matchingfounditems p query w)) = Items ms"
  shows "\<exists>q. query ''lostItemDescription'' = Some q \<and> q \<noteq> [] \<and> find_error w = None
             \<and> ms = fst (match_loop p q (foundItems w) [] (provider_calls w))"
  using assms
  by (auto simp: matchingfounditems_def FoundItem_find_def
      split: option.splits if_splits sum.splits prod.splits)

lemma handler_subseq:
  assumes "body (fst (matchingfounditems p query w)) = Items ms"
  shows "subseq ms (foundItems w)"
proof -
  from handler_items [OF assms] obtain q where
    "ms = fst (match_loop p q (foundItems w) [] (provider_calls w))"
    by blast
  with match_loop_subseq [of p q "foundItems w" "[]" "provider_calls w"]
  show ?thesis by auto
qed

lemma handler_foundItems:
  "foundItems (snd (matchingfounditems p query w)) = foundItems w"
  by (simp add: matchingfounditems_def split: option.split sum.split prod.split)


lemma handler_stateless:
  assumes "query ''lostItemDescription'' = Some q" and "q \<noteq> []" and "find_error w = None"
  shows "fst (matchingfounditems (\<lambda>_. f) query w)
         = \<lparr>status = 200,
            body = Items (filter (\<lambda>item. js_ge (similarity_of f q item) (Num (1 / 2)))
                            (foundItems w))\<rparr>"
proof -
  obtain ms cs' where
    m: "match_loop (\<lambda>_. f) q (foundItems w) [] (provider_calls w) = (ms, cs')"
    by (cases "match_loop (\<lambda>_. f) q (foundItems w) [] (provider_calls w)")
  have "ms = filter (\<lambda>item. js_ge (similarity_of f q item) (Num (1 / 2))) (foundItems w)"
    using match_loop_stateless [of f q "foundItems w" "[]" "provider_calls w"] m by simp
  with assms m show ?thesis by (simp add: matchingfounditems_def FoundItem_find_def)
qed


lemma handler_status:
  assumes "query ''lostItemDescription'' = Some q" and "q \<noteq> []" and "find_error w = None"
  shows "status (fst (matchingfounditems p query w)) = 200"
  using assms
  by (simp add: matchingfounditems_def FoundItem_find_def split: prod.split)

lemma handler_candidate_fails:
  assumes "\<forall>c. p c d = None" and "body (fst (matchingfounditems p query w)) = Items ms"
  shows "\<forall>item \<in> set ms. description item \<noteq> d"
proof -
  from handler_items [OF assms(2)] obtain q where
    "ms = fst (match_loop p q (foundItems w) [] (provider_calls w))"
    by blast
  with match_loop_candidate_fails [of p d "[]" q "foundItems w" "provider_calls w"] assms(1)
  show ?thesis by simp
qed




section \<open>The claims\<close>

text \<open>
  C1, as the code has it. A match call with a description and a fetch that succeeds
  calls \<open>similarityModel\<close> inside the loop, and nothing is cached: for every fetched
  item, in order, it calls it on the query text and, only when that call returns, on
  the description of the item. With \<open>n\<close> candidates that is between \<open>n\<close> and
  \<open>2 n\<close> calls; when the call on the query text throws every time, as with the
  binding of \<open>app.js\<close>, it is \<open>n\<close> calls on the query text, none of which returns.
\<close>

theorem match_provider_calls:
  assumes "query ''lostItemDescription'' = Some q" and "q \<noteq> []" and "find_error w = None"
  shows "\<exists>segs. provider_calls (snd (matchingfounditems p query w))
                 = provider_calls w @ concat segs
           \<and> length segs = length (foundItems w)
           \<and> (\<forall>i < length (foundItems w).
                 segs ! i = (if p (provider_calls w @ concat (take i segs)) q = None then [q]
                             else [q, description (foundItems w ! i)]))
           \<and> length (foundItems w) \<le> length (concat segs)
           \<and> length (concat segs) \<le> 2 * length (foundItems w)
           \<and> ((\<forall>c. p c q = None) \<longrightarrow> concat segs = replicate (length (foundItems w)) q)"
proof -
  obtain ms cs' where m: "match_loop p q (foundItems w) [] (provider_calls w) = (ms, cs')"
    by (cases "match_loop p q (foundItems w) [] (provider_calls w)")
  have r: "provider_calls (snd (matchingfounditems p query w)) = cs'"
    using assms m by (simp add: matchingfounditems_def FoundItem_find_def)
  from match_loop_calls_exact [of p q "foundItems w" "[]" "provider_calls w"] m
  obtain segs where s: "cs' = provider_calls w @ concat segs"
      "length segs = length (foundItems w)"
      "\<forall>i < length (foundItems w).
         segs ! i = (if p (provider_calls w @ concat (take i segs)) q = None then [q]
                     else [q, description (foundItems w ! i)])"
    by auto
  from match_loop_calls [of p q "foundItems w" "[]" "provider_calls w"] m s(1)
  have b: "length (foundItems w) \<le> length (concat segs)"
      "length (concat segs) \<le> 2 * length (foundItems w)"
    by auto
  have f: "(\<forall>c. p c q = None) \<longrightarrow> concat segs = replicate (length (foundItems w)) q"
    using match_loop_calls_fail [of p q "foundItems w" "[]" "provider_calls w"] m s(1) by auto
  from r s b f show ?thesis by blast
qed

theorem match_provider_calls_witness:
  "[''lostItemDescription'' \<mapsto> ''wallet''] ''lostItemDescription'' = Some ''wallet''
   \<and> ''wallet'' \<noteq> [] \<and> find_error world_demo = None
   \<and> (\<forall>c. similarityModel_promise c ''wallet'' = None)
   \<and> provider_calls (snd (matchingfounditems similarityModel_promise
        [''lostItemDescription'' \<mapsto> ''wallet''] world_demo))
      = provider_calls world_demo @ replicate (length (foundItems world_demo)) ''wallet''"
  using match_provider_calls [of "[''lostItemDescription'' \<mapsto> ''wallet'']" "''wallet''"
      world_demo similarityModel_promise]
  by (auto simp: similarityModel_promise_def world_demo_def)

text \<open>
  C1 as stated fails: with three candidates and the binding of \<open>app.js\<close>,
  \<open>similarityModel\<close> is called three times and throws each time. The number of calls
  is three and the number of calls that return an embedding is zero; neither is one.
\<close>

theorem match_provider_calls_counterexample:
  "provider_calls (snd (matchingfounditems similarityModel_promise
      [''lostItemDescription'' \<mapsto> ''wallet''] world_demo)) = [''wallet'', ''wallet'', ''wallet'']
   \<and> similarityModel_promise [] ''wallet'' = None
   \<and> similarityModel_promise [''wallet''] ''wallet'' = None
   \<and> similarityModel_promise [''wallet'', ''wallet''] ''wallet'' = None"
  by (simp add: demo_promise) (simp add: similarityModel_promise_def)

text \<open>
  C2, as the code has it. When the provider throws at every call for the query text,
  the match call does not fail: every candidate is scored \<open>0\<close>, the answer is status
  200 with the empty list, and the collection is unchanged.
\<close>

theorem match_query_provider_failure:
  assumes "query ''lostItemDescription'' = Some q" and "q \<noteq> []" and "find_error w = None"
    and "\<forall>c. p c q = None"
  shows "fst (matchingfounditems p query w) = \<lparr>status = 200, body = Items []\<rparr>
         \<and> foundItems (snd (matchingfounditems p query w)) = foundItems w"
proof -
  obtain ms cs' where m: "match_loop p q (foundItems w) [] (provider_calls w) = (ms, cs')"
    by (cases "match_loop p q (foundItems w) [] (provider_calls w)")
  have "ms = []"
    using match_loop_query_fails [of p q "foundItems w" "[]" "provider_calls w"]
      assms(4) m
    by simp
  with assms m show ?thesis by (simp add: matchingfounditems_def FoundItem_find_def)
qed

theorem match_query_provider_failure_witness:
  "[''lostItemDescription'' \<mapsto> ''ring''] ''lostItemDescription'' = Some ''ring''
   \<and> ''ring'' \<noteq> [] \<and> find_error world_demo = None
   \<and> (\<forall>c. (\<lambda>_. embed_demo) c ''ring'' = None)
   \<and> fst (matchingfounditems (\<lambda>_. embed_demo) [''lostItemDescription'' \<mapsto> ''ring''] world_demo)
      = \<lparr>status = 200, body = Items []\<rparr>
   \<and> foundItems (snd (matchingfounditems (\<lambda>_. embed_demo)
        [''lostItemDescription'' \<mapsto> ''ring''] world_demo)) = foundItems world_demo"
  using match_query_provider_failure [of "[''lostItemDescription'' \<mapsto> ''ring'']" "''ring''"
      world_demo "\<lambda>_. embed_demo"]
  by (simp add: world_demo_def embed_demo_def)

text \<open>C2 as stated fails: with a provider that always throws, the call answers 200
  with an empty list.\<close>

theorem match_query_provider_failure_counterexample:
  "(\<lambda>_ _. None :: real list list option) [] ''wallet'' = None
   \<and> fst (matchingfounditems (\<lambda>_ _. None) [''lostItemDescription'' \<mapsto> ''wallet''] world_demo)
      = \<lparr>status = 200, body = Items []\<rparr>"
  by (simp add: demo_down)



text \<open>
  C4, as the code has it. For an embedding model whose answer depends on the text
  alone (as with the binding of \<open>app.js\<close>, which always throws), the result is the
  fetched collection filtered by \<open>similarity >= 0.5\<close>; the cutoff is the constant of
  the handler, and no other query parameter is read.
\<close>

theorem match_threshold_fixed:
  assumes "query ''lostItemDescription'' = Some q" and "q \<noteq> []" and "find_error w = None"
  shows "fst (matchingfounditems (\<lambda>_. f) query w)
         = \<lparr>status = 200,
            body = Items (filter (\<lambda>item. js_ge (similarity_of f q item) (Num (1 / 2)))
                            (foundItems w))\<rparr>"
  using assms by (rule handler_stateless)

theorem match_threshold_fixed_witness:
  "[''lostItemDescription'' \<mapsto> ''wallet'', ''threshold'' \<mapsto> ''0.9''] ''lostItemDescription''
     = Some ''wallet''
   \<and> ''wallet'' \<noteq> [] \<and> find_error world_demo = None
   \<and> fst (matchingfounditems (\<lambda>_. embed_demo)
        [''lostItemDescription'' \<mapsto> ''wallet'', ''threshold'' \<mapsto> ''0.9''] world_demo)
      = \<lparr>status = 200, body = Items [item_demo 11 ''bag'', item_demo 12 ''wallet'']\<rparr>"
  using match_threshold_fixed [of "[''lostItemDescription'' \<mapsto> ''wallet'', ''threshold'' \<mapsto> ''0.9'']"
      "''wallet''" world_demo embed_demo]
  by (simp add: world_demo_def demo_sim_bag demo_sim_wallet demo_sim_keys)

text \<open>
  C4 as stated fails: with the binding of \<open>app.js\<close> a request that carries
  \<open>threshold=0\<close> gets the empty list, although every candidate is scored \<open>0\<close> and
  \<open>0 >= 0\<close> holds.
\<close>

theorem match_threshold_fixed_counterexample:
  "fst (matchingfounditems similarityModel_promise
        [''lostItemDescription'' \<mapsto> ''wallet'', ''threshold'' \<mapsto> ''0''] world_demo)
      = \<lparr>status = 200, body = Items []\<rparr>
   \<and> similarity_of (\<lambda>text. None) ''wallet'' (item_demo 11 ''bag'') = Num 0
   \<and> js_ge (Num 0) (Num 0)"
  by (simp add: demo_defs similarityModel_promise_def)

text \<open>
  C6, as the code has it. A request whose description is missing or is the empty
  string is answered with status 400, and the world is untouched: no provider call, no
  fetch.
\<close>

theorem match_empty_description:
  assumes "query ''lostItemDescription'' = None \<or> query ''lostItemDescription'' = Some []"
  shows "matchingfounditems p query w
         = (\<lparr>status = 400, body = Message ''Lost item description is required''\<rparr>, w)"
  using assms by (auto simp: matchingfounditems_def)

theorem match_empty_description_witness:
  "(Map.empty ''lostItemDescription'' = (None :: string option)
      \<or> Map.empty ''lostItemDescription'' = Some [])
   \<and> ([''lostItemDescription'' \<mapsto> []] ''lostItemDescription'' = None
      \<or> [''lostItemDescription'' \<mapsto> []] ''lostItemDescription'' = Some [])
   \<and> matchingfounditems (\<lambda>_. embed_demo) Map.empty world_demo
      = (\<lparr>status = 400, body = Message ''Lost item description is required''\<rparr>, world_demo)
   \<and> matchingfounditems (\<lambda>_. embed_demo) [''lostItemDescription'' \<mapsto> []] world_demo
      = (\<lparr>status = 400, body = Message ''Lost item description is required''\<rparr>, world_demo)"
  using match_empty_description [of Map.empty "\<lambda>_. embed_demo" world_demo]
    match_empty_description [of "[''lostItemDescription'' \<mapsto> []]" "\<lambda>_. embed_demo" world_demo]
  by simp

text \<open>C6 as stated fails: a description of one blank is empty after trimming, yet the
  call answers 200 and has called the provider once for each candidate.\<close>

theorem match_empty_description_counterexample:
  "spec_normalize '' '' = []
   \<and> status (fst (matchingfounditems (\<lambda>_. embed_demo) [''lostItemDescription'' \<mapsto> '' '']
        world_demo)) = 200
   \<and> provider_calls (snd (matchingfounditems (\<lambda>_. embed_demo) [''lostItemDescription'' \<mapsto> '' '']
        world_demo)) = ['' '', '' '', '' '']"
  by (simp add: demo_blank spec_normalize_def)



text \<open>
  C9. \<open>computeTextSimilarity\<close> has no exceptional result: whatever the \<open>try\<close> block
  throws (the provider at either call, or a TypeError of the similarity computation)
  becomes the number \<open>0\<close>, which no positive cutoff accepts. So a candidate whose
  description the provider always rejects is never returned, and the match call still
  answers 200.
\<close>

theorem computeTextSimilarity_total:
  "(\<forall>e. fst (similarity_try p text1 text2 cs) = Inl e \<longrightarrow>
        fst (computeTextSimilarity p text1 text2 cs) = Num 0)
   \<and> (p cs text1 = None \<or> p (cs @ [text1]) text2 = None \<longrightarrow>
        fst (computeTextSimilarity p text1 text2 cs) = Num 0)
   \<and> (0 < t \<longrightarrow> \<not> js_ge (Num 0) (Num t))
   \<and> ((\<forall>c. p c d = None) \<and> body (fst (matchingfounditems p query w)) = Items ms \<longrightarrow>
        (\<forall>item \<in> set ms. description item \<noteq> d))
   \<and> (query ''lostItemDescription'' = Some q \<and> q \<noteq> [] \<and> find_error w = None \<longrightarrow>
        status (fst (matchingfounditems p query w)) = 200)"
proof -
  have "\<forall>e. fst (similarity_try p text1 text2 cs) = Inl e \<longrightarrow>
        fst (computeTextSimilarity p text1 text2 cs) = Num 0"
    by (simp add: computeTextSimilarity_def split: prod.split sum.split)
  moreover have "p cs text1 = None \<or> p (cs @ [text1]) text2 = None \<longrightarrow>
        fst (computeTextSimilarity p text1 text2 cs) = Num 0"
    by (auto simp: computeTextSimilarity_def similarity_try_def split: option.split)
  moreover have "0 < t \<longrightarrow> \<not> js_ge (Num 0) (Num t)" by simp
  moreover have "(\<forall>c. p c d = None) \<and> body (fst (matchingfounditems p query w)) = Items ms \<longrightarrow>
        (\<forall>item \<in> set ms. description item \<noteq> d)"
    using handler_candidate_fails [of p d query w ms] by blast
  moreover have "query ''lostItemDescription'' = Some q \<and> q \<noteq> [] \<and> find_error w = None \<longrightarrow>
        status (fst (matchingfounditems p query w)) = 200"
    using handler_status [of query q w p] by blast
  ultimately show ?thesis by blast
qed

theorem computeTextSimilarity_total_witness:
  "fst (similarity_try (\<lambda>_. embed_demo) ''wallet'' ''ring'' []) = Inl ProviderFailure
   \<and> ((\<lambda>_. embed_demo) [] ''wallet'' = None \<or> (\<lambda>_. embed_demo) ([] @ [''wallet'']) ''ring'' = None)
   \<and> fst (computeTextSimilarity (\<lambda>_. embed_demo) ''wallet'' ''ring'' []) = Num 0
   \<and> (0 :: real) < 1 / 2 \<and> \<not> js_ge (Num 0) (Num (1 / 2))
   \<and> (\<forall>c. (\<lambda>_. embed_demo) c ''ring'' = None)
   \<and> body (fst (matchingfounditems (\<lambda>_. embed_demo) [''lostItemDescription'' \<mapsto> ''wallet'']
        (world_demo\<lparr>foundItems := [item_demo 14 ''ring'', item_demo 12 ''wallet'']\<rparr>)))
      = Items [item_demo 12 ''wallet'']
   \<and> description (item_demo 12 ''wallet'') \<noteq> ''ring''
   \<and> [''lostItemDescription'' \<mapsto> ''wallet''] ''lostItemDescription'' = Some ''wallet''
   \<and> ''wallet'' \<noteq> []
   \<and> find_error (world_demo\<lparr>foundItems := [item_demo 14 ''ring'', item_demo 12 ''wallet'']\<rparr>) = None
   \<and> status (fst (matchingfounditems (\<lambda>_. embed_demo) [''lostItemDescription'' \<mapsto> ''wallet'']
        (world_demo\<lparr>foundItems := [item_demo 14 ''ring'', item_demo 12 ''wallet'']\<rparr>))) = 200"
  using computeTextSimilarity_total [of "\<lambda>_. embed_demo" "''wallet''" "''ring''" "[]" "1 / 2"
      "''ring''" "[''lostItemDescription'' \<mapsto> ''wallet'']"
      "world_demo\<lparr>foundItems := [item_demo 14 ''ring'', item_demo 12 ''wallet'']\<rparr>"
      "[item_demo 12 ''wallet'']" "''wallet''"]
  by (simp add: demo_try_ring demo_run_ring) (simp add: embed_demo_def world_demo_def)

text \<open>
  C10. Every returned list is made of fetched records, in the order of the fetch, no
  record more often than it was fetched (so without repetition when the fetch has
  none), and the handler leaves the collection as it was.
\<close>

theorem match_result_from_fetch:
  "(\<forall>ms. body (fst (matchingfounditems p query w)) = Items ms \<longrightarrow>
        set ms \<subseteq> set (foundItems w)
        \<and> subseq ms (foundItems w)
        \<and> (\<forall>x. count_list ms x \<le> count_list (foundItems w) x)
        \<and> (distinct (foundItems w) \<longrightarrow> distinct ms))
   \<and> foundItems (snd (matchingfounditems p query w)) = foundItems w"
proof -
  have "set ms \<subseteq> set (foundItems w) \<and> subseq ms (foundItems w)
        \<and> (\<forall>x. count_list ms x \<le> count_list (foundItems w) x)
        \<and> (distinct (foundItems w) \<longrightarrow> distinct ms)"
    if "body (fst (matchingfounditems p query w)) = Items ms" for ms
  proof -
    have s: "subseq ms (foundItems w)" using that by (rule handler_subseq)
    then show ?thesis
      using subseq_subset [OF s] subseq_count_list [OF s] subseq_distinct [OF s] by blast
  qed
  then show ?thesis by (simp add: handler_foundItems)
qed

theorem match_result_from_fetch_witness:
  "body (fst (matchingfounditems (\<lambda>_. embed_demo) [''lostItemDescription'' \<mapsto> ''wallet'']
        world_demo)) = Items [item_demo 11 ''bag'', item_demo 12 ''wallet'']
   \<and> distinct (foundItems world_demo)
   \<and> set [item_demo 11 ''bag'', item_demo 12 ''wallet''] \<subseteq> set (foundItems world_demo)
   \<and> distinct [item_demo 11 ''bag'', item_demo 12 ''wallet'']
   \<and> foundItems (snd (matchingfounditems (\<lambda>_. embed_demo) [''lostItemDescription'' \<mapsto> ''wallet'']
        world_demo)) = foundItems world_demo"
  using match_result_from_fetch [of "\<lambda>_. embed_demo" "[''lostItemDescription'' \<mapsto> ''wallet'']"
      world_demo]
  by (simp add: demo_run) (simp add: world_demo_def item_demo_def)

end
